theory Spec2Isabelle
  imports Complex_Main
begin

section \<open>Values of the program\<close>

text \<open>
  The dashboard exists in two variants: \<^verbatim>\<open>EvolMerc.py\<close> (a script that is rerun, with a
  time-boxed cache) and \<^verbatim>\<open>EvolMerc - old.py\<close> (a background thread that refreshes a
  global store). Definitions of the second variant carry the suffix \<open>_old\<close>.

  A Python float is modelled as a real number, or as the one non-number that the code can
  meet where it does not drop missing values: NaN. Rounding and the infinities are not
  part of the model. The only operation the classification applies to a float is the
  comparison \<open>angle > c\<close> with an integer constant, which is exact on floats and is false
  when the float is NaN.
\<close>

datatype pyfloat = Num real | NaN

fun py_gt :: "pyfloat \<Rightarrow> real \<Rightarrow> bool" where
  "py_gt (Num a) c = (a > c)"
| "py_gt NaN c = False"

text \<open>
  The five bands of the specification, their order, and the text and colour that each
  variant of the code returns for them.
\<close>

datatype trend_label = STRONG_DOWN | MODERATE_DOWN | SIDEWAYS | MODERATE_UP | STRONG_UP

fun label_rank :: "trend_label \<Rightarrow> nat" where
  "label_rank STRONG_DOWN = 0"
| "label_rank MODERATE_DOWN = 1"
| "label_rank SIDEWAYS = 2"
| "label_rank MODERATE_UP = 3"
| "label_rank STRONG_UP = 4"

fun label_of_text :: "string \<Rightarrow> trend_label option" where
  "label_of_text s =
     (if s = ''FORTE ALTA'' then Some STRONG_UP
      else if s = ''ALTA MODERADA'' then Some MODERATE_UP
      else if s = ''LATERAL'' then Some SIDEWAYS
      else if s = ''BAIXA MODERADA'' then Some MODERATE_DOWN
      else if s = ''FORTE BAIXA'' then Some STRONG_DOWN
      else None)"

section \<open>Trend classification\<close>

text \<open>
  \<^verbatim>\<open>
  def get_trend_info(angle):
      if angle > 15: return "FORTE ALTA", "#10B981"
      elif angle > 5: return "ALTA MODERADA", "#34D399"
      elif angle > -5: return "LATERAL", "#FBBF24"
      elif angle > -15: return "BAIXA MODERADA", "#FB923C"
      else: return "FORTE BAIXA", "#EF4444"
  \<close>
\<close>

definition get_trend_info :: "pyfloat \<Rightarrow> string \<times> string" where
  "get_trend_info angle =
     (if py_gt angle 15 then (''FORTE ALTA'', ''#10B981'')
      else if py_gt angle 5 then (''ALTA MODERADA'', ''#34D399'')
      else if py_gt angle (- 5) then (''LATERAL'', ''#FBBF24'')
      else if py_gt angle (- 15) then (''BAIXA MODERADA'', ''#FB923C'')
      else (''FORTE BAIXA'', ''#EF4444''))"

text \<open>
  The old variant takes the slope as well, does not use it, and prefixes each text with a
  pictograph: the bytes of its UTF-8 encoding, followed by a space.
\<close>

definition icon_chart_up :: string where
  "icon_chart_up = [CHR 0xF0, CHR 0x9F, CHR 0x93, CHR 0x88]"

definition icon_arrow_up_right :: string where
  "icon_arrow_up_right = [CHR 0xE2, CHR 0x86, CHR 0x97, CHR 0xEF, CHR 0xB8, CHR 0x8F]"

definition icon_arrow_right :: string where
  "icon_arrow_right = [CHR 0xE2, CHR 0x9E, CHR 0xA1, CHR 0xEF, CHR 0xB8, CHR 0x8F]"

definition icon_arrow_down_right :: string where
  "icon_arrow_down_right = [CHR 0xE2, CHR 0x86, CHR 0x98, CHR 0xEF, CHR 0xB8, CHR 0x8F]"

definition icon_chart_down :: string where
  "icon_chart_down = [CHR 0xF0, CHR 0x9F, CHR 0x93, CHR 0x89]"

definition get_trend_info_old :: "pyfloat \<Rightarrow> pyfloat \<Rightarrow> string \<times> string" where
  "get_trend_info_old slope angle =
     (if py_gt angle 15 then (icon_chart_up @ '' FORTE ALTA'', ''#10B981'')
      else if py_gt angle 5 then (icon_arrow_up_right @ '' ALTA MODERADA'', ''#34D399'')
      else if py_gt angle (- 5) then (icon_arrow_right @ '' LATERAL'', ''#FBBF24'')
      else if py_gt angle (- 15) then (icon_arrow_down_right @ '' BAIXA MODERADA'', ''#FB923C'')
      else (icon_chart_down @ '' FORTE BAIXA'', ''#EF4444''))"

text \<open>The label of a text of the old variant: the text after the pictograph and the space.\<close>

definition label_of_text_old :: "string \<Rightarrow> trend_label option" where
  "label_of_text_old s = label_of_text (tl (dropWhile (\<lambda>c. c \<noteq> CHR '' '') s))"

section \<open>Errors\<close>

text \<open>
  Every exception the modelled code can meet is a value. \<open>UpstreamError\<close> stands for
  whatever the market-data library raises (network failure, bad symbol).
  \<open>RankDeficient\<close> marks the one input of \<^verbatim>\<open>np.polyfit\<close> whose answer is not modelled:
  a system without a unique least-squares line, where the library warns and returns a
  minimum-norm solution.
\<close>

datatype py_error = TypeError | ValueError | ZeroDivisionError | KeyError | IndexError
  | AttributeError | OverflowError | UpstreamError | RankDeficient

definition bind_err :: "py_error + 'a \<Rightarrow> ('a \<Rightarrow> py_error + 'b) \<Rightarrow> py_error + 'b" where
  "bind_err m f = (case m of Inl e \<Rightarrow> Inl e | Inr v \<Rightarrow> f v)"

fun map_err :: "('a \<Rightarrow> py_error + 'b) \<Rightarrow> 'a list \<Rightarrow> py_error + 'b list" where
  "map_err f [] = Inr []"
| "map_err f (x # xs) = bind_err (f x) (\<lambda>y. bind_err (map_err f xs) (\<lambda>ys. Inr (y # ys)))"

text \<open>Python's \<^verbatim>\<open>min\<close> and \<^verbatim>\<open>max\<close> of a list: ValueError on the empty list.\<close>

fun py_min :: "real list \<Rightarrow> py_error + real" where
  "py_min [] = Inl ValueError"
| "py_min (x # xs) = Inr (fold (\<lambda>y m. if y < m then y else m) xs x)"

fun py_max :: "real list \<Rightarrow> py_error + real" where
  "py_max [] = Inl ValueError"
| "py_max (x # xs) = Inr (fold (\<lambda>y m. if y > m then y else m) xs x)"

fun filter_err :: "('a \<Rightarrow> py_error + bool) \<Rightarrow> 'a list \<Rightarrow> py_error + 'a list" where
  "filter_err f [] = Inr []"
| "filter_err f (x # xs) =
     bind_err (f x) (\<lambda>keep. bind_err (filter_err f xs) (\<lambda>ys. Inr (if keep then x # ys else ys)))"

text \<open>Python's \<^verbatim>\<open>xs[0]\<close> and \<^verbatim>\<open>xs[-1]\<close>: IndexError on the empty list.\<close>

definition py_first :: "'a list \<Rightarrow> py_error + 'a" where
  "py_first xs = (case xs of [] \<Rightarrow> Inl IndexError | x # _ \<Rightarrow> Inr x)"

definition py_last :: "'a list \<Rightarrow> py_error + 'a" where
  "py_last xs = (case xs of [] \<Rightarrow> Inl IndexError | _ # _ \<Rightarrow> Inr (last xs))"

section \<open>Arithmetic on floats that may be NaN\<close>

text \<open>
  The old variant does not drop missing closes, so its arithmetic meets NaN. A difference
  or a product with a NaN operand is NaN. Python's float division raises
  ZeroDivisionError on a zero divisor, whatever the dividend, and gives NaN when an
  operand is NaN and the divisor is not zero. Of two floats one of which is NaN, neither
  is less than the other, and they are unequal.
\<close>

fun py_sub :: "pyfloat \<Rightarrow> pyfloat \<Rightarrow> pyfloat" where
  "py_sub (Num a) (Num b) = Num (a - b)"
| "py_sub NaN b = NaN"
| "py_sub (Num a) NaN = NaN"

fun py_mul :: "pyfloat \<Rightarrow> pyfloat \<Rightarrow> pyfloat" where
  "py_mul (Num a) (Num b) = Num (a * b)"
| "py_mul NaN b = NaN"
| "py_mul (Num a) NaN = NaN"

fun py_truediv :: "pyfloat \<Rightarrow> pyfloat \<Rightarrow> py_error + pyfloat" where
  "py_truediv (Num a) (Num b) = (if b = 0 then Inl ZeroDivisionError else Inr (Num (a / b)))"
| "py_truediv NaN (Num b) = (if b = 0 then Inl ZeroDivisionError else Inr NaN)"
| "py_truediv a NaN = Inr NaN"

fun py_lt :: "pyfloat \<Rightarrow> pyfloat \<Rightarrow> bool" where
  "py_lt (Num a) (Num b) = (a < b)"
| "py_lt NaN b = False"
| "py_lt (Num a) NaN = False"

fun py_ne :: "pyfloat \<Rightarrow> pyfloat \<Rightarrow> bool" where
  "py_ne (Num a) (Num b) = (a \<noteq> b)"
| "py_ne NaN b = True"
| "py_ne (Num a) NaN = True"

fun py_arctan :: "pyfloat \<Rightarrow> pyfloat" where
  "py_arctan (Num a) = Num (arctan a)"
| "py_arctan NaN = NaN"

text \<open>
  Python's \<^verbatim>\<open>min\<close> and \<^verbatim>\<open>max\<close> keep the first element and replace it by a later one
  that compares less (greater), so their result on a list with a NaN depends on the order.
\<close>

fun py_min_nan :: "pyfloat list \<Rightarrow> py_error + pyfloat" where
  "py_min_nan [] = Inl ValueError"
| "py_min_nan (x # xs) = Inr (fold (\<lambda>y m. if py_lt y m then y else m) xs x)"

fun py_max_nan :: "pyfloat list \<Rightarrow> py_error + pyfloat" where
  "py_max_nan [] = Inl ValueError"
| "py_max_nan (x # xs) = Inr (fold (\<lambda>y m. if py_lt m y then y else m) xs x)"

section \<open>Slope and angle\<close>

text \<open>\<^verbatim>\<open>np.arange(n)\<close> is the indices \<open>0, \<dots>, n - 1\<close>.\<close>

definition np_arange :: "nat \<Rightarrow> real list" where
  "np_arange n = map real [0..<n]"

text \<open>
  Modelled from the spec: \<^verbatim>\<open>np.polyfit(x, y, 1)\<close> is a routine of the numerical library,
  whose code is not part of the repository. The specification's words for the call are
  "fit an ordinary-least-squares line \<open>y = slope * x + intercept\<close> minimizing squared vertical
  residuals over all n points". The model is the solution of the normal equations in
  exact arithmetic, highest power first: the pair is \<open>(coeffs[0], coeffs[1])\<close>, slope then
  intercept. The library computes in floating point, so what it returns is this pair up
  to rounding only; nothing in this theory says how large the rounding is. The library
  raises TypeError on an empty \<open>x\<close> and on vectors of different lengths.
\<close>

definition polyfit1 :: "real list \<Rightarrow> real list \<Rightarrow> py_error + real \<times> real" where
  "polyfit1 x y =
     (if x = [] then Inl TypeError
      else if length x \<noteq> length y then Inl TypeError
      else
        let n = real (length x);
            sx = sum_list x;
            sy = sum_list y;
            sxx = (\<Sum>a\<leftarrow>x. a * a);
            sxy = (\<Sum>(a, b)\<leftarrow>zip x y. a * b);
            d = n * sxx - sx * sx
        in if d = 0 then Inl RankDeficient
           else Inr ((n * sxy - sx * sy) / d, (sy * sxx - sx * sxy) / d))"

text \<open>
  \<^verbatim>\<open>
  def calculate_slope(prices):
      if len(prices) < 2: return 0.0, 0.0
      x = np.arange(len(prices))
      y = np.array(prices, dtype=float)
      coeffs = np.polyfit(x, y, 1)
      slope = coeffs[0]
      angle = np.arctan(slope) * (180 / np.pi)
      return slope, angle
  \<close>
  The old variant differs only in \<^verbatim>\<open>np.array(prices)\<close> and in returning the integers
  \<^verbatim>\<open>0, 0\<close>; on a list of floats both are this function.
\<close>

definition calculate_slope :: "real list \<Rightarrow> py_error + real \<times> real" where
  "calculate_slope prices =
     (if length prices < 2 then Inr (0, 0)
      else
        let x = np_arange (length prices);
            y = prices
        in bind_err (polyfit1 x y) (\<lambda>coeffs.
             let slope = fst coeffs;
                 angle = arctan slope * (180 / pi)
             in Inr (slope, angle)))"

text \<open>
  The trend estimation of the specification: slope and angle, then the classification of
  the angle, as \<^verbatim>\<open>fetch_asset_data\<close> calls them one after the other.
\<close>

definition estimate_trend :: "real list \<Rightarrow> py_error + real \<times> real \<times> string \<times> string" where
  "estimate_trend prices =
     bind_err (calculate_slope prices) (\<lambda>(slope, angle).
       let (trend, trend_color) = get_trend_info (Num angle)
       in Inr (slope, angle, trend, trend_color))"

definition estimate_trend_old :: "real list \<Rightarrow> py_error + real \<times> real \<times> string \<times> string" where
  "estimate_trend_old prices =
     bind_err (calculate_slope prices) (\<lambda>(slope, angle).
       let (trend, trend_color) = get_trend_info_old (Num slope) (Num angle)
       in Inr (slope, angle, trend, trend_color))"

text \<open>
  The sum of squared vertical residuals of the line \<open>y = a * x + b\<close> over the points
  \<open>(x\<^sub>i, y\<^sub>i)\<close>: what an ordinary-least-squares fit minimises, in the specification's words.
\<close>

definition squared_residuals :: "real list \<Rightarrow> real list \<Rightarrow> real \<Rightarrow> real \<Rightarrow> real" where
  "squared_residuals x y a b = (\<Sum>(u, v)\<leftarrow>zip x y. (v - (a * u + b))\<^sup>2)"

subsection \<open>Prices that are Python ints\<close>






subsection \<open>Prices that are NaN\<close>

text \<open>
  The old fetch passes its closes to \<^verbatim>\<open>calculate_slope\<close> as they come, NaN included.
  \<^verbatim>\<open>np.polyfit\<close> does not filter: each coefficient is a sum of products with every
  element of \<open>y\<close>, and a product with NaN is NaN even when the other factor is zero, so one
  NaN in \<open>y\<close> makes both coefficients NaN. \<^verbatim>\<open>np.arctan\<close> of NaN is NaN. On a list
  without NaN this is \<open>calculate_slope\<close>.
\<close>

fun all_nums :: "pyfloat list \<Rightarrow> real list option" where
  "all_nums [] = Some []"
| "all_nums (Num a # ys) = map_option ((#) a) (all_nums ys)"
| "all_nums (NaN # ys) = None"

definition polyfit1_nan :: "real list \<Rightarrow> pyfloat list \<Rightarrow> py_error + pyfloat \<times> pyfloat" where
  "polyfit1_nan x y =
     (if x = [] then Inl TypeError
      else if length x \<noteq> length y then Inl TypeError
      else case all_nums y of
             None \<Rightarrow> Inr (NaN, NaN)
           | Some ys \<Rightarrow> bind_err (polyfit1 x ys) (\<lambda>coeffs. Inr (Num (fst coeffs), Num (snd coeffs))))"

definition calculate_slope_nan :: "pyfloat list \<Rightarrow> py_error + pyfloat \<times> pyfloat" where
  "calculate_slope_nan prices =
     (if length prices < 2 then Inr (Num 0, Num 0)
      else
        let x = np_arange (length prices);
            y = prices
        in bind_err (polyfit1_nan x y) (\<lambda>coeffs.
             let slope = fst coeffs;
                 angle = py_mul (py_arctan slope) (Num (180 / pi))
             in Inr (slope, angle)))"

section \<open>The script variant: fetching, the data store, cards and charts\<close>

record asset_info =
  name :: string
  color :: string
  unit :: string
  interval :: string

definition ASSETS :: "(string \<times> asset_info) list" where
  "ASSETS =
     [(''GC=F'', \<lparr>name = ''Ouro (Gold)'', color = ''#FFD700'', unit = ''$'', interval = ''30m''\<rparr>),
      (''SI=F'', \<lparr>name = ''Prata (Silver)'', color = ''#C0C0C0'', unit = ''$'', interval = ''30m''\<rparr>),
      (''CL=F'', \<lparr>name = ''Petr'' @ [CHR 0xC3, CHR 0xB3] @ ''leo (Crude)'', color = ''#00B4D8'',
         unit = ''$'', interval = ''30m''\<rparr>),
      (''^GSPC'', \<lparr>name = ''S&P 500'', color = ''#10B981'', unit = [], interval = ''5m''\<rparr>),
      (''^NDX'', \<lparr>name = ''NASDAQ 100'', color = ''#3B82F6'', unit = [], interval = ''5m''\<rparr>),
      (''^DJI'', \<lparr>name = ''Dow Jones'', color = ''#EC4899'', unit = [], interval = ''5m''\<rparr>),
      (''^GDAXI'', \<lparr>name = ''DAX'', color = ''#F59E0B'', unit = [], interval = ''15m''\<rparr>)]"

text \<open>
  What \<^verbatim>\<open>yf.Ticker(symbol).history(...)\<close> does is the world's: it raises, returns
  \<^verbatim>\<open>None\<close>, or returns a frame, here its rows in order, each a timestamp and a close
  that may be missing (NaN). The world is a parameter \<open>yf\<close> of the fetch, a function of
  the symbol and the interval. The conversion of the timestamps to Lisbon time does not
  change the prices and is left out.
\<close>

datatype yf_history = HistoryRaises | HistoryNone | History "(nat \<times> pyfloat) list"

fun dropna :: "(nat \<times> pyfloat) list \<Rightarrow> (nat \<times> real) list" where
  "dropna [] = []"
| "dropna ((t, Num p) # rows) = (t, p) # dropna rows"
| "dropna ((t, NaN) # rows) = dropna rows"

record snapshot =
  current_price :: real
  last_time :: nat
  change :: real
  change_pct :: real
  trend :: string
  trend_color :: string
  angle :: real
  prices :: "real list"
  times_list :: "nat list"

text \<open>
  \<^verbatim>\<open>
  def fetch_asset_data(symbol, info):
      ...
      df = yf.Ticker(symbol).history(start=start_time, end=end_time, interval=info['interval'])
      if df is None or df.empty: return None
      ...
      closes = df['Close'].dropna()
      if closes.empty: return None
      prices = closes.tolist()
      times = closes.index.tolist()
      current_price = prices[-1]
      previous_price = prices[0]
      change = current_price - previous_price
      change_pct = (change / previous_price) * 100 if previous_price else 0.0
      slope, angle = calculate_slope(prices)
      trend, trend_color = get_trend_info(angle)
      return {'current_price': current_price, 'last_time': times[-1], ...}
  \<close>
  A float is false exactly when it is zero.
\<close>

definition fetch_asset_data ::
  "(string \<Rightarrow> string \<Rightarrow> yf_history) \<Rightarrow> string \<Rightarrow> asset_info \<Rightarrow> py_error + snapshot option" where
  "fetch_asset_data yf symbol info =
     (case yf symbol (interval info) of
        HistoryRaises \<Rightarrow> Inl UpstreamError
      | HistoryNone \<Rightarrow> Inr None
      | History df \<Rightarrow>
          if df = [] then Inr None
          else
            let closes = dropna df in
            if closes = [] then Inr None
            else
              let ps = map snd closes;
                  ts = map fst closes
              in bind_err (py_last ps) (\<lambda>cur.
                 bind_err (py_first ps) (\<lambda>previous_price.
                   let chg = cur - previous_price;
                       pct = (if previous_price \<noteq> 0 then (chg / previous_price) * 100 else 0)
                   in bind_err (calculate_slope ps) (\<lambda>(slope, ang).
                        let (tr, tr_color) = get_trend_info (Num ang)
                        in bind_err (py_last ts) (\<lambda>lt.
                             Inr (Some \<lparr>current_price = cur, last_time = lt, change = chg,
                                        change_pct = pct, trend = tr, trend_color = tr_color,
                                        angle = ang, prices = ps, times_list = ts\<rparr>))))))"





text \<open>
  \<^verbatim>\<open>
  scripts = [s for s in ASSETS.keys() if s in data_store and len(data_store[s]['prices']) > 1
             and min(data_store[s]['prices']) != max(data_store[s]['prices'])]
  \<close>
\<close>

definition chartable :: "snapshot \<Rightarrow> py_error + bool" where
  "chartable data =
     (if length (prices data) > 1
      then bind_err (py_min (prices data)) (\<lambda>lo.
           bind_err (py_max (prices data)) (\<lambda>hi. Inr (lo \<noteq> hi)))
      else Inr False)"

definition scripts :: "(string \<rightharpoonup> snapshot) \<Rightarrow> py_error + string list" where
  "scripts data_store =
     filter_err (\<lambda>s. case data_store s of None \<Rightarrow> Inr False | Some data \<Rightarrow> chartable data)
       (map fst ASSETS)"

text \<open>
  \<^verbatim>\<open>
  prices = pd.Series(data['prices'], index=times)
  prices = prices.ffill().bfill()
  normalized = (prices - prices.min()) / (prices.max() - prices.min()) * 100
  \<close>
  The prices of a snapshot have no missing value, so the filling changes nothing. The
  arithmetic is the data-frame library's, element by element, and does not raise: a zero
  range divides zero by zero in every element, which is NaN. An empty series has no
  element.
\<close>

definition normalized :: "real list \<Rightarrow> pyfloat list" where
  "normalized ps =
     (case ps of
        [] \<Rightarrow> []
      | p0 # rest \<Rightarrow>
          let lo = fold min rest p0;
              hi = fold max rest p0
          in map (\<lambda>p. if hi - lo = 0 then NaN else Num ((p - lo) / (hi - lo) * 100)) ps)"

text \<open>
  \<^verbatim>\<open>
  fig = make_subplots(rows=len(scripts), cols=1, ...)
  for i, symbol in enumerate(scripts, 1):
      data = data_store[symbol]
      ...
      fig.add_trace(go.Scatter(x=prices.index, y=normalized, ...), row=i, col=1)
  ...
  if scripts:
      st.plotly_chart(fig, width="stretch")
  else:
      st.info(...)
  \<close>
  The figure is made before the test of \<^verbatim>\<open>scripts\<close>, and the plotting library raises
  ValueError for a grid of no rows: with nothing to chart the script stops there, after
  the cards, and the \<^verbatim>\<open>else\<close> branch is never reached.
\<close>

definition make_subplots :: "nat \<Rightarrow> py_error + unit" where
  "make_subplots rows = (if rows < 1 then Inl ValueError else Inr ())"

definition chart_traces :: "(string \<rightharpoonup> snapshot) \<Rightarrow> py_error + (string \<times> pyfloat list) list" where
  "chart_traces data_store =
     bind_err (scripts data_store) (\<lambda>ss.
     bind_err (make_subplots (length ss)) (\<lambda>fig.
       map_err (\<lambda>symbol. case data_store symbol of
                            None \<Rightarrow> Inl KeyError
                          | Some data \<Rightarrow> Inr (symbol, normalized (prices data))) ss))"

section \<open>The old variant: fetching, the global store, the chart\<close>

record asset_info_old =
  name_old :: string
  color_old :: string
  unit_old :: string

definition ASSETS_old :: "(string \<times> asset_info_old) list" where
  "ASSETS_old =
     [(''GC=F'', \<lparr>name_old = ''Ouro (Gold)'', color_old = ''#FFD700'', unit_old = ''$''\<rparr>),
      (''SI=F'', \<lparr>name_old = ''Prata (Silver)'', color_old = ''#C0C0C0'', unit_old = ''$''\<rparr>),
      (''NG=F'', \<lparr>name_old = ''G'' @ [CHR 0xC3, CHR 0xA1] @ ''s Natural'', color_old = ''#FF6B35'',
         unit_old = ''$''\<rparr>),
      (''BZ=F'', \<lparr>name_old = ''Brent'', color_old = ''#00B4D8'', unit_old = ''$''\<rparr>),
      (''^GSPC'', \<lparr>name_old = ''S&P 500'', color_old = ''#10B981'', unit_old = []\<rparr>),
      (''EURUSD=X'', \<lparr>name_old = ''EUR/USD'', color_old = ''#3B82F6'', unit_old = []\<rparr>),
      (''USDJPY=X'', \<lparr>name_old = ''USD/JPY'', color_old = ''#EC4899'', unit_old = []\<rparr>)]"

text \<open>
  The world of the old variant is a function of the symbol alone (the interval is always
  one minute), with the same three answers: the library raises, returns \<^verbatim>\<open>None\<close>, or
  returns a frame. The old variant does not drop missing closes: the prices of its
  snapshot, and every number computed from them, may be NaN.
\<close>

record snapshot_old =
  symbol_old :: string
  prices_old :: "pyfloat list"
  times_old :: "nat list"
  current_price_old :: pyfloat
  change_old :: pyfloat
  change_pct_old :: pyfloat
  slope_old :: pyfloat
  angle_old :: pyfloat
  trend_old :: string
  trend_color_old :: string

text \<open>
  \<^verbatim>\<open>
  def fetch_asset_data(symbol, minutes=3):
      try:
          ...
          df = ticker.history(start=start_time, end=end_time, interval='1m')
          if df.empty:
              return None
          prices = df['Close'].tolist()
          times = df.index.tolist()
          if len(prices) < 2:
              return None
          current_price = prices[-1]
          previous_price = prices[0]
          change = current_price - previous_price
          change_pct = (change / previous_price) * 100
          slope, angle = calculate_slope(prices)
          trend, trend_color = get_trend_info(slope, angle)
          return {'symbol': symbol, 'prices': prices, ...}
      except Exception as e:
          print(f"Erro ao buscar {symbol}: {e}")
          return None
  \<close>
  \<open>fetch_body_old\<close> is the body of the \<^verbatim>\<open>try\<close>; \<open>fetch_asset_data_old\<close> adds the
  handler. \<^verbatim>\<open>df.empty\<close> raises AttributeError when \<^verbatim>\<open>df\<close> is \<^verbatim>\<open>None\<close>. The closes
  are Python floats, whose division raises on a zero divisor.
\<close>

definition fetch_body_old ::
  "(string \<Rightarrow> yf_history) \<Rightarrow> string \<Rightarrow> py_error + snapshot_old option" where
  "fetch_body_old yf symbol =
     (case yf symbol of
        HistoryRaises \<Rightarrow> Inl UpstreamError
      | HistoryNone \<Rightarrow> Inl AttributeError
      | History df \<Rightarrow>
          if df = [] then Inr None
          else
            let ps = map snd df;
                ts = map fst df
            in if length ps < 2 then Inr None
               else
                 bind_err (py_last ps) (\<lambda>cur.
                 bind_err (py_first ps) (\<lambda>previous_price.
                   let chg = py_sub cur previous_price
                   in bind_err (py_truediv chg previous_price) (\<lambda>q.
                        let pct = py_mul q (Num 100)
                        in bind_err (calculate_slope_nan ps) (\<lambda>(slope, ang).
                             let (tr, tr_color) = get_trend_info_old slope ang
                             in Inr (Some \<lparr>symbol_old = symbol, prices_old = ps, times_old = ts,
                                          current_price_old = cur, change_old = chg,
                                          change_pct_old = pct, slope_old = slope,
                                          angle_old = ang, trend_old = tr,
                                          trend_color_old = tr_color\<rparr>))))))"

definition fetch_asset_data_old ::
  "(string \<Rightarrow> yf_history) \<Rightarrow> string \<Rightarrow> snapshot_old option" where
  "fetch_asset_data_old yf symbol =
     (case fetch_body_old yf symbol of Inl e \<Rightarrow> None | Inr data \<Rightarrow> data)"

text \<open>
  \<^verbatim>\<open>
  for symbol in ASSETS.keys():
      data = fetch_asset_data(symbol, minutes=3)
      if data:
          data_store[symbol] = data
  \<close>
  One pass over the table, on the global store: the initial load runs it on the empty
  store, and \<^verbatim>\<open>update_all_data\<close> runs it again every sixty seconds, for ever. A number
  of passes is a list of worlds, one for each pass.
\<close>

definition refresh_old ::
  "(string \<Rightarrow> yf_history) \<Rightarrow> (string \<rightharpoonup> snapshot_old) \<Rightarrow> (string \<rightharpoonup> snapshot_old)" where
  "refresh_old yf data_store =
     fold (\<lambda>symbol store.
             case fetch_asset_data_old yf symbol of
               None \<Rightarrow> store
             | Some data \<Rightarrow> store(symbol \<mapsto> data))
          (map fst ASSETS_old) data_store"


text \<open>
  \<^verbatim>\<open>
  prices = data['prices']
  normalized = [(p - min(prices)) / (max(prices) - min(prices)) * 100
                if max(prices) != min(prices) else 50 for p in prices]
  \<close>
  The condition is evaluated first, for every element.
\<close>

definition normalized_elem_old :: "pyfloat list \<Rightarrow> pyfloat \<Rightarrow> py_error + pyfloat" where
  "normalized_elem_old ps p =
     bind_err (py_max_nan ps) (\<lambda>hi.
     bind_err (py_min_nan ps) (\<lambda>lo.
       if py_ne hi lo
       then bind_err (py_min_nan ps) (\<lambda>lo1.
            bind_err (py_max_nan ps) (\<lambda>hi2.
            bind_err (py_min_nan ps) (\<lambda>lo2.
            bind_err (py_truediv (py_sub p lo1) (py_sub hi2 lo2)) (\<lambda>q.
              Inr (py_mul q (Num 100))))))
       else Inr (Num 50)))"

definition normalized_old :: "pyfloat list \<Rightarrow> py_error + pyfloat list" where
  "normalized_old ps = map_err (normalized_elem_old ps) ps"

text \<open>The chart of the old variant: one trace for every asset that has a snapshot.\<close>

definition chart_traces_old ::
  "(string \<rightharpoonup> snapshot_old) \<Rightarrow> py_error + (string \<times> pyfloat list) list" where
  "chart_traces_old data_store =
     map_err (\<lambda>(symbol, data). bind_err (normalized_old (prices_old data)) (\<lambda>ys. Inr (symbol, ys)))
       (concat (map (\<lambda>(symbol, info). case data_store symbol of
                                         None \<Rightarrow> []
                                       | Some data \<Rightarrow> [(symbol, data)]) ASSETS_old))"

section \<open>Notions of the statements\<close>

text \<open>The label of the specification for the text that the classification returns.\<close>

definition trend_of_angle :: "pyfloat \<Rightarrow> trend_label option" where
  "trend_of_angle a = label_of_text (fst (get_trend_info a))"

definition trend_of_angle_old :: "pyfloat \<Rightarrow> pyfloat \<Rightarrow> trend_label option" where
  "trend_of_angle_old s a = label_of_text_old (fst (get_trend_info_old s a))"

text \<open>The normalisation in the specification's words: a price \<open>p\<close> of the series goes to
  \<open>(p - min) / (max - min) * 100\<close>.\<close>

definition scale_0_100 :: "real list \<Rightarrow> real \<Rightarrow> real" where
  "scale_0_100 ps p = (p - Min (set ps)) / (Max (set ps) - Min (set ps)) * 100"

text \<open>The symbols that get a chart in the script variant: the condition of \<^verbatim>\<open>scripts\<close>.\<close>

definition charted :: "(string \<rightharpoonup> snapshot) \<Rightarrow> string \<Rightarrow> bool" where
  "charted data_store s =
     (case data_store s of
        None \<Rightarrow> False
      | Some d \<Rightarrow> 1 < length (prices d) \<and> Min (set (prices d)) \<noteq> Max (set (prices d)))"

text \<open>Example data: a snapshot with the prices 1, 3, 2, and a world in which the first three
  symbols of the table fail, each in its own way, and every other symbol has four closes.\<close>

definition snapshot_132 :: snapshot where
  "snapshot_132 = \<lparr>current_price = 2, last_time = 2, change = 1, change_pct = 100,
     trend = ''FORTE ALTA'', trend_color = ''#10B981'', angle = arctan (1 / 2) * 180 / pi,
     prices = [1, 3, 2], times_list = [0, 1, 2]\<rparr>"


text \<open>Example data of the old variant: a world in which the first symbol of the table has two
  missing closes and every other fetch raises, and the snapshot that the old fetch makes
  of the two missing closes.\<close>

definition yf_nan_example :: "string \<Rightarrow> yf_history" where
  "yf_nan_example symbol =
     (if symbol = ''GC=F'' then History [(0, NaN), (1, NaN)] else HistoryRaises)"

definition snapshot_nan :: snapshot_old where
  "snapshot_nan = \<lparr>symbol_old = ''GC=F'', prices_old = [NaN, NaN], times_old = [0, 1],
     current_price_old = NaN, change_old = NaN, change_pct_old = NaN, slope_old = NaN,
     angle_old = NaN, trend_old = icon_chart_down @ '' FORTE BAIXA'',
     trend_color_old = ''#EF4444''\<rparr>"



section \<open>Properties of the classification\<close>

lemmas icon_defs = icon_chart_up_def icon_arrow_up_right_def icon_arrow_right_def
  icon_arrow_down_right_def icon_chart_down_def

lemma trend_of_angle_Num:
  "trend_of_angle (Num a) =
     Some (if 15 < a then STRONG_UP else if 5 < a then MODERATE_UP
           else if - 5 < a then SIDEWAYS else if - 15 < a then MODERATE_DOWN else STRONG_DOWN)"
  by (simp add: trend_of_angle_def get_trend_info_def)

lemma trend_of_angle_old_Num:
  "trend_of_angle_old s (Num a) =
     Some (if 15 < a then STRONG_UP else if 5 < a then MODERATE_UP
           else if - 5 < a then SIDEWAYS else if - 15 < a then MODERATE_DOWN else STRONG_DOWN)"
  by (simp add: trend_of_angle_old_def get_trend_info_old_def label_of_text_old_def icon_defs)

lemma color_Num:
  "snd (get_trend_info (Num a)) =
     (if 15 < a then ''#10B981'' else if 5 < a then ''#34D399''
      else if - 5 < a then ''#FBBF24'' else if - 15 < a then ''#FB923C'' else ''#EF4444'')"
  by (simp add: get_trend_info_def)

lemma color_old_Num:
  "snd (get_trend_info_old s (Num a)) =
     (if 15 < a then ''#10B981'' else if 5 < a then ''#34D399''
      else if - 5 < a then ''#FBBF24'' else if - 15 < a then ''#FB923C'' else ''#EF4444'')"
  by (simp add: get_trend_info_old_def)

text \<open>
  C1: for every real angle the classification returns the label and the colour of the
  band the angle lies in, the bands being cut by strict comparisons with 15, 5, -5 and
  -15: above 15 STRONG_UP with #10B981, above 5 up to 15 MODERATE_UP with #34D399, above
  -5 up to 5 SIDEWAYS with #FBBF24, above -15 up to -5 MODERATE_DOWN with #FB923C, and
  STRONG_DOWN with #EF4444 otherwise. The five bands cover the reals and do not overlap,
  so exactly one label is returned; each boundary value falls into the lower band. Both
  variants.
\<close>

theorem get_trend_info_bands:
  "(15 < a \<longrightarrow> trend_of_angle (Num a) = Some STRONG_UP \<and> snd (get_trend_info (Num a)) = ''#10B981'')
   \<and> (5 < a \<and> a \<le> 15 \<longrightarrow>
        trend_of_angle (Num a) = Some MODERATE_UP \<and> snd (get_trend_info (Num a)) = ''#34D399'')
   \<and> (- 5 < a \<and> a \<le> 5 \<longrightarrow>
        trend_of_angle (Num a) = Some SIDEWAYS \<and> snd (get_trend_info (Num a)) = ''#FBBF24'')
   \<and> (- 15 < a \<and> a \<le> - 5 \<longrightarrow>
        trend_of_angle (Num a) = Some MODERATE_DOWN \<and> snd (get_trend_info (Num a)) = ''#FB923C'')
   \<and> (a \<le> - 15 \<longrightarrow>
        trend_of_angle (Num a) = Some STRONG_DOWN \<and> snd (get_trend_info (Num a)) = ''#EF4444'')
   \<and> get_trend_info (Num 15) = (''ALTA MODERADA'', ''#34D399'')
   \<and> get_trend_info (Num 5) = (''LATERAL'', ''#FBBF24'')
   \<and> get_trend_info (Num (- 5)) = (''BAIXA MODERADA'', ''#FB923C'')
   \<and> get_trend_info (Num (- 15)) = (''FORTE BAIXA'', ''#EF4444'')
   \<and> (15 < a \<longrightarrow>
        trend_of_angle_old s (Num a) = Some STRONG_UP \<and> snd (get_trend_info_old s (Num a)) = ''#10B981'')
   \<and> (5 < a \<and> a \<le> 15 \<longrightarrow>
        trend_of_angle_old s (Num a) = Some MODERATE_UP \<and> snd (get_trend_info_old s (Num a)) = ''#34D399'')
   \<and> (- 5 < a \<and> a \<le> 5 \<longrightarrow>
        trend_of_angle_old s (Num a) = Some SIDEWAYS \<and> snd (get_trend_info_old s (Num a)) = ''#FBBF24'')
   \<and> (- 15 < a \<and> a \<le> - 5 \<longrightarrow>
        trend_of_angle_old s (Num a) = Some MODERATE_DOWN \<and> snd (get_trend_info_old s (Num a)) = ''#FB923C'')
   \<and> (a \<le> - 15 \<longrightarrow>
        trend_of_angle_old s (Num a) = Some STRONG_DOWN \<and> snd (get_trend_info_old s (Num a)) = ''#EF4444'')
   \<and> trend_of_angle_old s (Num 15) = Some MODERATE_UP
   \<and> trend_of_angle_old s (Num 5) = Some SIDEWAYS
   \<and> trend_of_angle_old s (Num (- 5)) = Some MODERATE_DOWN
   \<and> trend_of_angle_old s (Num (- 15)) = Some STRONG_DOWN"
  unfolding trend_of_angle_Num trend_of_angle_old_Num color_Num color_old_Num
  by (simp add: get_trend_info_def)

theorem get_trend_info_bands_witness:
  "trend_of_angle (Num 20) = Some STRONG_UP \<and> snd (get_trend_info (Num 20)) = ''#10B981''
   \<and> trend_of_angle (Num 10) = Some MODERATE_UP \<and> snd (get_trend_info (Num 10)) = ''#34D399''
   \<and> trend_of_angle (Num 0) = Some SIDEWAYS \<and> snd (get_trend_info (Num 0)) = ''#FBBF24''
   \<and> trend_of_angle (Num (- 10)) = Some MODERATE_DOWN \<and> snd (get_trend_info (Num (- 10))) = ''#FB923C''
   \<and> trend_of_angle (Num (- 20)) = Some STRONG_DOWN \<and> snd (get_trend_info (Num (- 20))) = ''#EF4444''
   \<and> trend_of_angle_old NaN (Num 20) = Some STRONG_UP
   \<and> trend_of_angle_old NaN (Num 10) = Some MODERATE_UP
   \<and> trend_of_angle_old NaN (Num 0) = Some SIDEWAYS
   \<and> trend_of_angle_old NaN (Num (- 10)) = Some MODERATE_DOWN
   \<and> trend_of_angle_old NaN (Num (- 20)) = Some STRONG_DOWN"
  using get_trend_info_bands [of 20 NaN] get_trend_info_bands [of 10 NaN]
    get_trend_info_bands [of 0 NaN] get_trend_info_bands [of "- 10" NaN]
    get_trend_info_bands [of "- 20" NaN]
  by simp

text \<open>
  C10: a NaN angle fails every comparison and reaches the last branch: the classification
  returns STRONG_DOWN with the red colour, and not SIDEWAYS. Both variants.
\<close>

theorem get_trend_info_nan:
  "get_trend_info NaN = (''FORTE BAIXA'', ''#EF4444'')
   \<and> trend_of_angle NaN = Some STRONG_DOWN
   \<and> trend_of_angle NaN \<noteq> Some SIDEWAYS
   \<and> get_trend_info_old s NaN = (icon_chart_down @ '' FORTE BAIXA'', ''#EF4444'')
   \<and> trend_of_angle_old s NaN = Some STRONG_DOWN
   \<and> trend_of_angle_old s NaN \<noteq> Some SIDEWAYS"
  by (simp add: trend_of_angle_def trend_of_angle_old_def get_trend_info_def
      get_trend_info_old_def label_of_text_old_def icon_defs)

lemma label_color_of:
  "snd (get_trend_info x) =
     (case trend_of_angle x of
        Some STRONG_UP \<Rightarrow> ''#10B981'' | Some MODERATE_UP \<Rightarrow> ''#34D399''
      | Some SIDEWAYS \<Rightarrow> ''#FBBF24'' | Some MODERATE_DOWN \<Rightarrow> ''#FB923C''
      | Some STRONG_DOWN \<Rightarrow> ''#EF4444'' | None \<Rightarrow> [])"
  by (cases x) (simp_all add: trend_of_angle_def get_trend_info_def)

lemma text_determines_color:
  "fst (get_trend_info x) = fst (get_trend_info y) \<Longrightarrow> snd (get_trend_info x) = snd (get_trend_info y)"
  by (simp add: label_color_of trend_of_angle_def)

lemma label_color_of_old:
  "snd (get_trend_info_old s x) =
     (case trend_of_angle_old s x of
        Some STRONG_UP \<Rightarrow> ''#10B981'' | Some MODERATE_UP \<Rightarrow> ''#34D399''
      | Some SIDEWAYS \<Rightarrow> ''#FBBF24'' | Some MODERATE_DOWN \<Rightarrow> ''#FB923C''
      | Some STRONG_DOWN \<Rightarrow> ''#EF4444'' | None \<Rightarrow> [])"
  by (cases x)
     (simp_all add: trend_of_angle_old_def get_trend_info_old_def label_of_text_old_def icon_defs)

lemma text_determines_color_old:
  "fst (get_trend_info_old s x) = fst (get_trend_info_old t y)
     \<Longrightarrow> snd (get_trend_info_old s x) = snd (get_trend_info_old t y)"
  by (simp add: label_color_of_old trend_of_angle_old_def)

text \<open>
  C9: the classification is monotone: for real angles \<open>a \<le> b\<close> the label of \<open>a\<close> is at most
  the label of \<open>b\<close> in the order STRONG_DOWN, MODERATE_DOWN, SIDEWAYS, MODERATE_UP,
  STRONG_UP. The label determines the colour: two angles (NaN included) with the same
  text, or the same label, get the same colour. Both variants.
\<close>

theorem get_trend_info_monotone:
  "(a \<le> b \<longrightarrow>
      (\<exists>la lb. trend_of_angle (Num a) = Some la \<and> trend_of_angle (Num b) = Some lb
         \<and> label_rank la \<le> label_rank lb)
      \<and> (\<exists>la lb. trend_of_angle_old s (Num a) = Some la \<and> trend_of_angle_old t (Num b) = Some lb
         \<and> label_rank la \<le> label_rank lb))
   \<and> (fst (get_trend_info x) = fst (get_trend_info y)
        \<longrightarrow> snd (get_trend_info x) = snd (get_trend_info y))
   \<and> (trend_of_angle x = trend_of_angle y \<longrightarrow> snd (get_trend_info x) = snd (get_trend_info y))
   \<and> (fst (get_trend_info_old s x) = fst (get_trend_info_old t y)
        \<longrightarrow> snd (get_trend_info_old s x) = snd (get_trend_info_old t y))"
proof -
  have "a \<le> b \<Longrightarrow> \<exists>la lb. trend_of_angle (Num a) = Some la \<and> trend_of_angle (Num b) = Some lb
         \<and> label_rank la \<le> label_rank lb"
    unfolding trend_of_angle_Num by simp
  moreover have "a \<le> b \<Longrightarrow> \<exists>la lb. trend_of_angle_old s (Num a) = Some la
         \<and> trend_of_angle_old t (Num b) = Some lb \<and> label_rank la \<le> label_rank lb"
    unfolding trend_of_angle_old_Num by simp
  moreover have "trend_of_angle x = trend_of_angle y \<Longrightarrow> snd (get_trend_info x) = snd (get_trend_info y)"
    by (simp add: label_color_of)
  ultimately show ?thesis
    using text_determines_color [of x y] text_determines_color_old [of s x t y] by blast
qed

theorem get_trend_info_monotone_witness:
  "trend_of_angle (Num 0) = Some SIDEWAYS \<and> trend_of_angle (Num 10) = Some MODERATE_UP
   \<and> label_rank SIDEWAYS \<le> label_rank MODERATE_UP
   \<and> snd (get_trend_info (Num 0)) = snd (get_trend_info (Num 1))"
proof -
  have t: "fst (get_trend_info (Num 0)) = fst (get_trend_info (Num 1))"
    by (simp add: get_trend_info_def)
  have "(0::real) \<le> 10" by simp
  with get_trend_info_monotone [of 0 10 NaN NaN "Num 0" "Num 1"] t
  show ?thesis by (simp add: trend_of_angle_Num)
qed

section \<open>Properties of the slope\<close>

lemma np_arange_Suc: "np_arange (Suc n) = np_arange n @ [real n]"
  by (simp add: np_arange_def)

lemma length_np_arange: "length (np_arange n) = n"
  by (simp add: np_arange_def)

lemma sum_np_arange: "2 * sum_list (np_arange n) = real n * (real n - 1)"
  by (induction n) (simp_all add: np_arange_Suc np_arange_def algebra_simps)

lemma sum_sq_np_arange: "6 * (\<Sum>a\<leftarrow>np_arange n. a * a) = real n * (real n - 1) * (2 * real n - 1)"
  by (induction n) (simp_all add: np_arange_Suc np_arange_def algebra_simps)

lemma det_np_arange:
  "12 * (real n * (\<Sum>a\<leftarrow>np_arange n. a * a) - sum_list (np_arange n) * sum_list (np_arange n))
     = (real n)\<^sup>2 * ((real n)\<^sup>2 - 1)"
proof -
  have "12 * (real n * (\<Sum>a\<leftarrow>np_arange n. a * a) - sum_list (np_arange n) * sum_list (np_arange n))
      = 2 * real n * (6 * (\<Sum>a\<leftarrow>np_arange n. a * a)) - 3 * ((2 * sum_list (np_arange n)) * (2 * sum_list (np_arange n)))"
    by (simp add: algebra_simps)
  also have "\<dots> = 2 * real n * (real n * (real n - 1) * (2 * real n - 1)) - 3 * ((real n * (real n - 1)) * (real n * (real n - 1)))"
    by (simp only: sum_np_arange sum_sq_np_arange)
  also have "\<dots> = (real n)\<^sup>2 * ((real n)\<^sup>2 - 1)"
    by (simp add: algebra_simps power2_eq_square)
  finally show ?thesis .
qed

lemma det_np_arange_pos:
  assumes "2 \<le> n"
  shows "0 < real n * (\<Sum>a\<leftarrow>np_arange n. a * a) - sum_list (np_arange n) * sum_list (np_arange n)"
proof -
  have "1 < real n" using assms by simp
  then have "1 * 1 < real n * real n" by (intro mult_strict_mono) simp_all
  then have "1 < (real n)\<^sup>2" by (simp add: power2_eq_square)
  then have "0 < (real n)\<^sup>2 * ((real n)\<^sup>2 - 1)" using assms by simp
  then have "0 < 12 * (real n * (\<Sum>a\<leftarrow>np_arange n. a * a) - sum_list (np_arange n) * sum_list (np_arange n))"
    by (simp only: det_np_arange)
  then show ?thesis by (simp only: zero_less_mult_iff) simp
qed

lemma squared_residuals_expand:
  assumes "length x = length y"
  shows "squared_residuals x y a b =
     (\<Sum>v\<leftarrow>y. v * v) - 2 * a * (\<Sum>(u, v)\<leftarrow>zip x y. u * v) - 2 * b * sum_list y
       + a\<^sup>2 * (\<Sum>u\<leftarrow>x. u * u) + 2 * a * b * sum_list x + real (length x) * b\<^sup>2"
  using assms
  by (induction x y rule: list_induct2)
     (simp_all add: squared_residuals_def algebra_simps power2_eq_square)


lemma least_squares_gap:
  fixes sxx sx sxy sy n d a0 b0 :: real
  assumes len: "length x = length y"
    and d: "real (length x) * (\<Sum>u\<leftarrow>x. u * u) - sum_list x * sum_list x \<noteq> 0"
    and c: "polyfit1 x y = Inr (a0, b0)"
  shows "squared_residuals x y a b = squared_residuals x y a0 b0
           + ((a - a0)\<^sup>2 * (\<Sum>u\<leftarrow>x. u * u) + 2 * (a - a0) * (b - b0) * sum_list x
              + real (length x) * (b - b0)\<^sup>2)"
proof -
  define n where "n = real (length x)"
  define sx where "sx = sum_list x"
  define sy where "sy = sum_list y"
  define sxx where "sxx = (\<Sum>u\<leftarrow>x. u * u)"
  define sxy where "sxy = (\<Sum>(u, v)\<leftarrow>zip x y. u * v)"
  define dd where "dd = n * sxx - sx * sx"
  have dd: "dd \<noteq> 0" using d by (simp add: dd_def n_def sxx_def sx_def)
  have a0: "a0 = (n * sxy - sx * sy) / dd" and b0: "b0 = (sy * sxx - sx * sxy) / dd"
    using c len d
    by (auto simp: polyfit1_def Let_def n_def sx_def sy_def sxx_def sxy_def dd_def
             split: if_splits)
  have ne1: "a0 * sxx + b0 * sx = sxy"
  proof -
    have "(a0 * sxx + b0 * sx) * dd = (n * sxy - sx * sy) * sxx + (sy * sxx - sx * sxy) * sx"
      using dd by (simp add: a0 b0 field_simps)
    also have "\<dots> = sxy * dd" by (simp add: dd_def algebra_simps)
    finally show ?thesis using dd by simp
  qed
  have ne2: "a0 * sx + n * b0 = sy"
  proof -
    have "(a0 * sx + n * b0) * dd = (n * sxy - sx * sy) * sx + n * (sy * sxx - sx * sxy)"
      using dd by (simp add: a0 b0 field_simps)
    also have "\<dots> = sy * dd" by (simp add: dd_def algebra_simps)
    finally show ?thesis using dd by simp
  qed
  have e1: "squared_residuals x y a b =
      (\<Sum>v\<leftarrow>y. v * v) - 2 * a * sxy - 2 * b * sy + a\<^sup>2 * sxx + 2 * a * b * sx + n * b\<^sup>2"
    for a b
    using squared_residuals_expand [OF len, of a b]
    by (simp add: n_def sx_def sy_def sxx_def sxy_def)
  have "squared_residuals x y a b - squared_residuals x y a0 b0 =
      (a - a0)\<^sup>2 * sxx + 2 * (a - a0) * (b - b0) * sx + n * (b - b0)\<^sup>2"
    unfolding e1 ne1 [symmetric] ne2 [symmetric]
    by (simp add: algebra_simps power2_eq_square)
  then show ?thesis by (simp add: n_def sx_def sxx_def)
qed

lemma quadratic_form_nonneg:
  fixes n sx sxx p q :: real
  assumes n: "0 < n" and d: "0 < n * sxx - sx * sx"
  shows "0 \<le> p\<^sup>2 * sxx + 2 * p * q * sx + n * q\<^sup>2"
    and "p\<^sup>2 * sxx + 2 * p * q * sx + n * q\<^sup>2 = 0 \<Longrightarrow> p = 0 \<and> q = 0"
proof -
  have id: "n * (p\<^sup>2 * sxx + 2 * p * q * sx + n * q\<^sup>2) = (n * q + p * sx)\<^sup>2 + p\<^sup>2 * (n * sxx - sx * sx)"
    by (simp add: algebra_simps power2_eq_square)
  have "0 \<le> (n * q + p * sx)\<^sup>2 + p\<^sup>2 * (n * sxx - sx * sx)"
    using d by (intro add_nonneg_nonneg mult_nonneg_nonneg) simp_all
  then have "0 \<le> n * (p\<^sup>2 * sxx + 2 * p * q * sx + n * q\<^sup>2)" by (simp only: id)
  then show "0 \<le> p\<^sup>2 * sxx + 2 * p * q * sx + n * q\<^sup>2"
    using n by (simp add: zero_le_mult_iff)
  assume z: "p\<^sup>2 * sxx + 2 * p * q * sx + n * q\<^sup>2 = 0"
  then have s: "(n * q + p * sx)\<^sup>2 + p\<^sup>2 * (n * sxx - sx * sx) = 0"
    using id by simp
  have t1: "0 \<le> (n * q + p * sx)\<^sup>2" by simp
  have t2: "0 \<le> p\<^sup>2 * (n * sxx - sx * sx)" using d by simp
  from s t1 t2 have u1: "(n * q + p * sx)\<^sup>2 = 0" and u2: "p\<^sup>2 * (n * sxx - sx * sx) = 0"
    by linarith+
  from u2 d have p0: "p = 0" by simp
  with u1 n have "q = 0" by simp
  with p0 show "p = 0 \<and> q = 0" by simp
qed


lemma polyfit1_np_arange:
  assumes "2 \<le> length ps"
  shows "polyfit1 (np_arange (length ps)) ps =
     Inr ((real (length ps) * (\<Sum>(u, v)\<leftarrow>zip (np_arange (length ps)) ps. u * v)
             - sum_list (np_arange (length ps)) * sum_list ps)
          / (real (length ps) * (\<Sum>u\<leftarrow>np_arange (length ps). u * u)
             - sum_list (np_arange (length ps)) * sum_list (np_arange (length ps))),
          (sum_list ps * (\<Sum>u\<leftarrow>np_arange (length ps). u * u)
             - sum_list (np_arange (length ps)) * (\<Sum>(u, v)\<leftarrow>zip (np_arange (length ps)) ps. u * v))
          / (real (length ps) * (\<Sum>u\<leftarrow>np_arange (length ps). u * u)
             - sum_list (np_arange (length ps)) * sum_list (np_arange (length ps))))"
proof -
  have ne: "np_arange (length ps) \<noteq> []"
    using assms by (auto simp: np_arange_def)
  have d: "real (length ps) * (\<Sum>u\<leftarrow>np_arange (length ps). u * u)
             - sum_list (np_arange (length ps)) * sum_list (np_arange (length ps)) \<noteq> 0"
    using det_np_arange_pos [OF assms] by simp
  show ?thesis
    unfolding polyfit1_def Let_def length_np_arange
    using ne d by simp
qed

lemma calculate_slope_fit:
  assumes "2 \<le> length ps"
  shows "\<exists>c. polyfit1 (np_arange (length ps)) ps = Inr c
           \<and> calculate_slope ps = Inr (fst c, arctan (fst c) * (180 / pi))"
  using assms polyfit1_np_arange [OF assms]
  by (simp add: calculate_slope_def bind_err_def Let_def)

lemma calculate_slope_returns: "\<exists>slope ang. calculate_slope ps = Inr (slope, ang)"
proof (cases "length ps < 2")
  case True
  then show ?thesis by (simp add: calculate_slope_def)
next
  case False
  then have "2 \<le> length ps" by simp
  from calculate_slope_fit [OF this] show ?thesis by auto
qed

lemma sum_zip_constant:
  assumes "length x = length ps" and "\<forall>p\<in>set ps. p = v"
  shows "(\<Sum>(a, b)\<leftarrow>zip x ps. a * b) = (v::real) * sum_list x"
  using assms by (induction x ps rule: list_induct2) (simp_all add: algebra_simps)

lemma sum_constant:
  assumes "\<forall>p\<in>set ps. p = v"
  shows "sum_list ps = real (length ps) * (v::real)"
  using assms by (induction ps) (simp_all add: algebra_simps)

lemma calculate_slope_constant:
  assumes "\<forall>p\<in>set ps. p = v"
  shows "calculate_slope ps = Inr (0, 0)"
proof (cases "length ps < 2")
  case True
  then show ?thesis by (simp add: calculate_slope_def)
next
  case False
  then have n: "2 \<le> length ps" by simp
  have "real (length ps) * (\<Sum>(a, b)\<leftarrow>zip (np_arange (length ps)) ps. a * b)
          - sum_list (np_arange (length ps)) * sum_list ps = 0"
    using sum_zip_constant [of "np_arange (length ps)" ps v] sum_constant [OF assms] assms
    by (simp add: length_np_arange)
  then show ?thesis
    using n polyfit1_np_arange [OF n]
    by (simp add: calculate_slope_def bind_err_def Let_def)
qed

text \<open>
  C4: for a price sequence of length \<open>n \<ge> 2\<close> the code fits the points
  \<open>(0, prices[0]), \<dots>, (n - 1, prices[n - 1])\<close>, takes the first coefficient of the fit as
  the slope and returns \<open>arctan slope * 180 / pi\<close> as the angle. The fit, in the
  specification's words for it, is the ordinary-least-squares line: with its intercept
  the slope minimises the sum of squared vertical residuals among all lines, and it is
  the only line that does.
\<close>

theorem calculate_slope_least_squares:
  assumes "2 \<le> length ps"
  shows "\<exists>c. polyfit1 (np_arange (length ps)) ps = Inr c
           \<and> calculate_slope ps = Inr (fst c, arctan (fst c) * 180 / pi)
           \<and> (\<forall>a b. squared_residuals (np_arange (length ps)) ps (fst c) (snd c)
                       \<le> squared_residuals (np_arange (length ps)) ps a b)
           \<and> (\<forall>a b. squared_residuals (np_arange (length ps)) ps a b
                       = squared_residuals (np_arange (length ps)) ps (fst c) (snd c)
                     \<longrightarrow> a = fst c \<and> b = snd c)"
proof -
  let ?x = "np_arange (length ps)"
  from calculate_slope_fit [OF assms] obtain c where
    c: "polyfit1 ?x ps = Inr c" and
    s: "calculate_slope ps = Inr (fst c, arctan (fst c) * (180 / pi))"
    by blast
  have len: "length ?x = length ps" by (simp add: length_np_arange)
  have dpos: "0 < real (length ?x) * (\<Sum>u\<leftarrow>?x. u * u) - sum_list ?x * sum_list ?x"
    using det_np_arange_pos [OF assms] by (simp add: length_np_arange)
  have npos: "0 < real (length ?x)" using assms by (cases ps) (simp_all add: length_np_arange)
  have c': "polyfit1 ?x ps = Inr (fst c, snd c)" using c by simp
  have gap: "squared_residuals ?x ps a b = squared_residuals ?x ps (fst c) (snd c)
           + ((a - fst c)\<^sup>2 * (\<Sum>u\<leftarrow>?x. u * u) + 2 * (a - fst c) * (b - snd c) * sum_list ?x
              + real (length ?x) * (b - snd c)\<^sup>2)" for a b
    using dpos by (intro least_squares_gap [OF len _ c']) simp
  have least: "squared_residuals ?x ps (fst c) (snd c) \<le> squared_residuals ?x ps a b" for a b
    using quadratic_form_nonneg(1) [OF npos dpos, of "a - fst c" "b - snd c"] gap [of a b]
    by linarith
  have uniq: "a = fst c \<and> b = snd c"
    if "squared_residuals ?x ps a b = squared_residuals ?x ps (fst c) (snd c)" for a b
  proof -
    have "(a - fst c)\<^sup>2 * (\<Sum>u\<leftarrow>?x. u * u) + 2 * (a - fst c) * (b - snd c) * sum_list ?x
              + real (length ?x) * (b - snd c)\<^sup>2 = 0"
      using gap [of a b] that by linarith
    from quadratic_form_nonneg(2) [OF npos dpos this] show ?thesis by simp
  qed
  from c s least uniq show ?thesis by (intro exI [of _ c]) simp
qed

theorem calculate_slope_least_squares_witness:
  "2 \<le> length [1, 3 :: real]
   \<and> calculate_slope [1, 3] = Inr (2, arctan 2 * 180 / pi)
   \<and> squared_residuals (np_arange (length [1, 3 :: real])) [1, 3] 2 1
       \<le> squared_residuals (np_arange (length [1, 3 :: real])) [1, 3] 0 0"
proof -
  have len: "2 \<le> length [1, 3 :: real]" by simp
  have fit: "polyfit1 (np_arange (length [1, 3 :: real])) [1, 3] = Inr (2, 1)"
    by (simp add: polyfit1_def np_arange_def upt_rec Let_def)
  from calculate_slope_least_squares [OF len] obtain c where
    c: "polyfit1 (np_arange (length [1, 3 :: real])) [1, 3] = Inr c" and
    s: "calculate_slope [1, 3] = Inr (fst c, arctan (fst c) * 180 / pi)" and
    l: "\<forall>a b. squared_residuals (np_arange (length [1, 3 :: real])) [1, 3] (fst c) (snd c)
               \<le> squared_residuals (np_arange (length [1, 3 :: real])) [1, 3] a b"
    by blast
  from c have e: "c = (2, 1)" unfolding fit by simp
  from l have "squared_residuals (np_arange (length [1, 3 :: real])) [1, 3] (fst c) (snd c)
               \<le> squared_residuals (np_arange (length [1, 3 :: real])) [1, 3] 0 0"
    by blast
  with s len show ?thesis unfolding e by simp
qed

section \<open>Properties of the trend estimation\<close>

lemma estimate_trend_of_slope:
  "calculate_slope ps = Inr (slope, ang) \<Longrightarrow>
     estimate_trend ps = Inr (slope, ang, fst (get_trend_info (Num ang)), snd (get_trend_info (Num ang)))"
  by (simp add: estimate_trend_def bind_err_def split: prod.splits)

lemma estimate_trend_old_of_slope:
  "calculate_slope ps = Inr (slope, ang) \<Longrightarrow>
     estimate_trend_old ps = Inr (slope, ang, fst (get_trend_info_old (Num slope) (Num ang)),
        snd (get_trend_info_old (Num slope) (Num ang)))"
  by (simp add: estimate_trend_old_def bind_err_def split: prod.splits)

lemma get_trend_info_zero: "get_trend_info (Num 0) = (''LATERAL'', ''#FBBF24'')"
  by (simp add: get_trend_info_def)

lemma get_trend_info_old_zero:
  "get_trend_info_old s (Num 0) = (icon_arrow_right @ '' LATERAL'', ''#FBBF24'')"
  by (simp add: get_trend_info_old_def)

text \<open>
  C2: for a price sequence with fewer than two elements, the empty one included, the
  trend estimation returns (it does not raise) slope 0, angle 0 and the label SIDEWAYS.
  Both variants.
\<close>

theorem estimate_trend_short:
  assumes "length ps < 2"
  shows "calculate_slope ps = Inr (0, 0)
    \<and> estimate_trend ps = Inr (0, 0, ''LATERAL'', ''#FBBF24'')
    \<and> label_of_text ''LATERAL'' = Some SIDEWAYS
    \<and> estimate_trend_old ps = Inr (0, 0, icon_arrow_right @ '' LATERAL'', ''#FBBF24'')
    \<and> label_of_text_old (icon_arrow_right @ '' LATERAL'') = Some SIDEWAYS"
proof -
  have c: "calculate_slope ps = Inr (0, 0)"
    using assms by (simp add: calculate_slope_def)
  show ?thesis
    using c estimate_trend_of_slope [OF c] estimate_trend_old_of_slope [OF c]
    by (simp add: get_trend_info_zero get_trend_info_old_zero label_of_text_old_def icon_defs)
qed

theorem estimate_trend_short_witness:
  "length ([] :: real list) < 2 \<and> estimate_trend [] = Inr (0, 0, ''LATERAL'', ''#FBBF24'')
   \<and> length [7 :: real] < 2 \<and> estimate_trend [7] = Inr (0, 0, ''LATERAL'', ''#FBBF24'')
   \<and> estimate_trend_old [7] = Inr (0, 0, icon_arrow_right @ '' LATERAL'', ''#FBBF24'')"
  using estimate_trend_short [of "[]"] estimate_trend_short [of "[7]"] by simp

subsection \<open>The estimation on floats and on Python ints\<close>














lemma all_nums_map_Num: "all_nums (map Num ps) = Some ps"
  by (induction ps) simp_all

lemma all_nums_None_iff: "all_nums ps = None \<longleftrightarrow> NaN \<in> set ps"
  by (induction ps rule: all_nums.induct) simp_all

lemma calculate_slope_nan_nums:
  "calculate_slope_nan (map Num ps) =
     (case calculate_slope ps of Inl e \<Rightarrow> Inl e | Inr (s, a) \<Rightarrow> Inr (Num s, Num a))"
proof (cases "length ps < 2")
  case True
  then show ?thesis by (simp add: calculate_slope_nan_def calculate_slope_def)
next
  case False
  then have ne: "np_arange (length ps) \<noteq> []" by (auto simp: np_arange_def)
  show ?thesis
    using False ne
    by (cases "polyfit1 (np_arange (length ps)) ps")
       (simp_all add: calculate_slope_nan_def calculate_slope_def polyfit1_nan_def
          all_nums_map_Num length_np_arange bind_err_def Let_def)
qed

lemma calculate_slope_nan_missing:
  assumes "2 \<le> length ps" and "NaN \<in> set ps"
  shows "calculate_slope_nan ps = Inr (NaN, NaN)"
proof -
  have ne: "np_arange (length ps) \<noteq> []" using assms(1) by (auto simp: np_arange_def)
  have "all_nums ps = None" using assms(2) by (simp add: all_nums_None_iff)
  then show ?thesis
    using assms(1) ne
    by (simp add: calculate_slope_nan_def polyfit1_nan_def length_np_arange bind_err_def Let_def)
qed

lemma calculate_slope_scenario:
  "calculate_slope [1900, 1905, 1910, 1920] = Inr (13 / 2, arctan (13 / 2) * 180 / pi)"
  by (simp add: calculate_slope_def polyfit1_def np_arange_def upt_rec bind_err_def Let_def)

lemma arctan_scenario: "45 < arctan (13 / 2) * (180 / pi)"
proof -
  have "arctan 1 < arctan (13 / 2)" by (simp add: arctan_less_iff)
  then have "pi / 4 < arctan (13 / 2)" by (simp add: arctan_one)
  then have "pi / 4 * (180 / pi) < arctan (13 / 2) * (180 / pi)"
    by (intro mult_strict_right_mono) simp_all
  then show ?thesis by simp
qed

lemma angle_scenario_strong: "15 < arctan (13 / 2) * 180 / pi"
  using arctan_scenario by simp


lemma get_trend_info_scenario:
  "get_trend_info (Num (arctan (13 / 2) * 180 / pi)) = (''FORTE ALTA'', ''#10B981'')"
  using angle_scenario_strong by (simp add: get_trend_info_def)

lemma get_trend_info_old_scenario:
  "get_trend_info_old s (Num (arctan (13 / 2) * 180 / pi)) = (icon_chart_up @ '' FORTE ALTA'', ''#10B981'')"
  using angle_scenario_strong by (simp add: get_trend_info_old_def)

lemma fetch_asset_data_scenario:
  assumes "yf symbol (interval info)
             = History [(t0, Num 1900), (t1, Num 1905), (t2, Num 1910), (t3, Num 1920)]"
  shows "fetch_asset_data yf symbol info
     = Inr (Some \<lparr>current_price = 1920, last_time = t3, change = 20, change_pct = 20 / 19,
                  trend = ''FORTE ALTA'', trend_color = ''#10B981'',
                  angle = arctan (13 / 2) * 180 / pi,
                  prices = [1900, 1905, 1910, 1920], times_list = [t0, t1, t2, t3]\<rparr>)"
  using assms
  by (simp add: fetch_asset_data_def py_last_def py_first_def bind_err_def
      calculate_slope_scenario get_trend_info_scenario)



lemma calculate_slope_nan_scenario:
  "calculate_slope_nan [Num 1900, Num 1905, Num 1910, Num 1920]
     = Inr (Num (13 / 2), Num (arctan (13 / 2) * 180 / pi))"
  using calculate_slope_nan_nums [of "[1900, 1905, 1910, 1920]"]
  by (simp add: calculate_slope_scenario)

lemma fetch_asset_data_old_scenario:
  assumes "yf symbol = History [(t0, Num 1900), (t1, Num 1905), (t2, Num 1910), (t3, Num 1920)]"
  shows "fetch_asset_data_old yf symbol
     = Some \<lparr>symbol_old = symbol,
             prices_old = [Num 1900, Num 1905, Num 1910, Num 1920],
             times_old = [t0, t1, t2, t3], current_price_old = Num 1920, change_old = Num 20,
             change_pct_old = Num (20 / 19), slope_old = Num (13 / 2),
             angle_old = Num (arctan (13 / 2) * 180 / pi),
             trend_old = icon_chart_up @ '' FORTE ALTA'', trend_color_old = ''#10B981''\<rparr>"
  using assms
  by (simp add: fetch_asset_data_old_def fetch_body_old_def py_last_def py_first_def
      bind_err_def calculate_slope_nan_scenario get_trend_info_old_scenario)

text \<open>
  C8: for the prices 1900, 1905, 1910, 1920 the trend estimation returns the slope 13/2
  and the angle \<open>arctan (13/2) * 180 / pi\<close>, both positive, and the label STRONG_UP, one of
  the two "up" labels; the snapshot has change 20 and change_pct 20/19, which is 1.05 to
  two decimals. Both variants.
\<close>

theorem scenario_1900_1920:
  "estimate_trend [1900, 1905, 1910, 1920]
     = Inr (13 / 2, arctan (13 / 2) * 180 / pi, ''FORTE ALTA'', ''#10B981'')
   \<and> (0::real) < 13 / 2
   \<and> 0 < arctan (13 / 2) * 180 / pi
   \<and> label_of_text ''FORTE ALTA'' = Some STRONG_UP
   \<and> fetch_asset_data (\<lambda>sym iv. History [(t0, Num 1900), (t1, Num 1905), (t2, Num 1910), (t3, Num 1920)])
        symbol info
     = Inr (Some \<lparr>current_price = 1920, last_time = t3, change = 20, change_pct = 20 / 19,
                  trend = ''FORTE ALTA'', trend_color = ''#10B981'',
                  angle = arctan (13 / 2) * 180 / pi,
                  prices = [1900, 1905, 1910, 1920], times_list = [t0, t1, t2, t3]\<rparr>)
   \<and> \<bar>20 / 19 - 1.05\<bar> < (0.005 :: real)
   \<and> estimate_trend_old [1900, 1905, 1910, 1920]
     = Inr (13 / 2, arctan (13 / 2) * 180 / pi, icon_chart_up @ '' FORTE ALTA'', ''#10B981'')
   \<and> label_of_text_old (icon_chart_up @ '' FORTE ALTA'') = Some STRONG_UP
   \<and> fetch_asset_data_old (\<lambda>sym. History [(t0, Num 1900), (t1, Num 1905), (t2, Num 1910), (t3, Num 1920)]) symbol
     = Some \<lparr>symbol_old = symbol,
             prices_old = [Num 1900, Num 1905, Num 1910, Num 1920],
             times_old = [t0, t1, t2, t3], current_price_old = Num 1920, change_old = Num 20,
             change_pct_old = Num (20 / 19), slope_old = Num (13 / 2),
             angle_old = Num (arctan (13 / 2) * 180 / pi),
             trend_old = icon_chart_up @ '' FORTE ALTA'', trend_color_old = ''#10B981''\<rparr>"
proof -
  have 1: "estimate_trend [1900, 1905, 1910, 1920]
     = Inr (13 / 2, arctan (13 / 2) * 180 / pi, ''FORTE ALTA'', ''#10B981'')"
    using estimate_trend_of_slope [OF calculate_slope_scenario]
    by (simp add: get_trend_info_scenario)
  have 2: "estimate_trend_old [1900, 1905, 1910, 1920]
     = Inr (13 / 2, arctan (13 / 2) * 180 / pi, icon_chart_up @ '' FORTE ALTA'', ''#10B981'')"
    using estimate_trend_old_of_slope [OF calculate_slope_scenario]
    by (simp add: get_trend_info_old_scenario)
  have 3: "0 < arctan (13 / 2) * 180 / pi"
    using angle_scenario_strong by linarith
  have 4: "fetch_asset_data (\<lambda>sym iv. History [(t0, Num 1900), (t1, Num 1905), (t2, Num 1910), (t3, Num 1920)])
        symbol info
     = Inr (Some \<lparr>current_price = 1920, last_time = t3, change = 20, change_pct = 20 / 19,
                  trend = ''FORTE ALTA'', trend_color = ''#10B981'',
                  angle = arctan (13 / 2) * 180 / pi,
                  prices = [1900, 1905, 1910, 1920], times_list = [t0, t1, t2, t3]\<rparr>)"
    by (rule fetch_asset_data_scenario) simp
  have 5: "fetch_asset_data_old (\<lambda>sym. History [(t0, Num 1900), (t1, Num 1905), (t2, Num 1910), (t3, Num 1920)]) symbol
     = Some \<lparr>symbol_old = symbol,
             prices_old = [Num 1900, Num 1905, Num 1910, Num 1920],
             times_old = [t0, t1, t2, t3], current_price_old = Num 1920, change_old = Num 20,
             change_pct_old = Num (20 / 19), slope_old = Num (13 / 2),
             angle_old = Num (arctan (13 / 2) * 180 / pi),
             trend_old = icon_chart_up @ '' FORTE ALTA'', trend_color_old = ''#10B981''\<rparr>"
    by (rule fetch_asset_data_old_scenario) simp
  have 6: "label_of_text_old (icon_chart_up @ '' FORTE ALTA'') = Some STRONG_UP"
    by (simp add: label_of_text_old_def icon_defs)
  from 1 2 3 4 5 6 show ?thesis by simp
qed

text \<open>
  C3: change_pct is \<open>(current_price - previous_price) / previous_price * 100\<close>, and is 0,
  with nothing raised, when previous_price is 0. The script variant does that
  (\<open>fetch_asset_data_change_pct\<close>). The old variant divides without the test: on a frame
  whose first close is 0 the division raises ZeroDivisionError, the handler of the fetch
  catches it, and the fetch returns no snapshot at all.
\<close>

theorem change_pct_old_zero_division:
  "fetch_body_old (\<lambda>sym. History [(t0, Num 0), (t1, Num 5)]) symbol = Inl ZeroDivisionError
   \<and> fetch_asset_data_old (\<lambda>sym. History [(t0, Num 0), (t1, Num 5)]) symbol = None"
  by (simp add: fetch_asset_data_old_def fetch_body_old_def py_last_def py_first_def
      bind_err_def)

lemma fetch_asset_data_change_pct:
  assumes "fetch_asset_data yf symbol info = Inr (Some d)"
  shows "prices d \<noteq> []
    \<and> current_price d = last (prices d)
    \<and> change d = last (prices d) - hd (prices d)
    \<and> change_pct d = (if hd (prices d) = 0 then 0
                       else (last (prices d) - hd (prices d)) / hd (prices d) * 100)"
proof (cases "yf symbol (interval info)")
  case HistoryRaises
  with assms show ?thesis by (simp add: fetch_asset_data_def)
next
  case HistoryNone
  with assms show ?thesis by (simp add: fetch_asset_data_def)
next
  case (History df)
  obtain slope ang where c: "calculate_slope (map snd (dropna df)) = Inr (slope, ang)"
    using calculate_slope_returns by blast
  from assms History have ne: "dropna df \<noteq> []"
    by (auto simp: fetch_asset_data_def Let_def split: if_splits)
  then obtain r rs where rs: "dropna df = r # rs" by (cases "dropna df") auto
  from assms History ne c show ?thesis
    by (auto simp: fetch_asset_data_def Let_def py_last_def py_first_def bind_err_def rs
        split: if_splits prod.splits)
qed

section \<open>Properties of the chart normalisation\<close>

lemma py_min_Min: "ps \<noteq> [] \<Longrightarrow> py_min ps = Inr (Min (set ps))"
proof (cases ps)
  case Nil
  then show "ps \<noteq> [] \<Longrightarrow> ?thesis" by simp
next
  case (Cons x xs)
  have "(\<lambda>y m. if y < m then y else m) = (min :: real \<Rightarrow> real \<Rightarrow> real)"
    by (auto simp: fun_eq_iff min_def)
  moreover have "fold min xs x = Min (set (x # xs))" by (rule Min.set_eq_fold [symmetric])
  ultimately show ?thesis using Cons by (simp del: set_simps)
qed

lemma py_max_Max: "ps \<noteq> [] \<Longrightarrow> py_max ps = Inr (Max (set ps))"
proof (cases ps)
  case Nil
  then show "ps \<noteq> [] \<Longrightarrow> ?thesis" by simp
next
  case (Cons x xs)
  have "(\<lambda>y m. if y > m then y else m) = (max :: real \<Rightarrow> real \<Rightarrow> real)"
    by (auto simp: fun_eq_iff max_def)
  moreover have "fold max xs x = Max (set (x # xs))" by (rule Max.set_eq_fold [symmetric])
  ultimately show ?thesis using Cons by (simp del: set_simps)
qed

lemma map_err_Inr:
  assumes "\<And>x. x \<in> set xs \<Longrightarrow> f x = Inr (g x)"
  shows "map_err f xs = Inr (map g xs)"
  using assms by (induction xs) (simp_all add: bind_err_def)

lemma scale_0_100_range:
  assumes "p \<in> set ps" and "Max (set ps) \<noteq> Min (set ps)"
  shows "0 \<le> scale_0_100 ps p" and "scale_0_100 ps p \<le> 100"
proof -
  have lo: "Min (set ps) \<le> p" and hi: "p \<le> Max (set ps)" using assms(1) by simp_all
  have "Min (set ps) \<le> Max (set ps)" using lo hi by linarith
  with assms(2) have d: "0 < Max (set ps) - Min (set ps)" by linarith
  show "0 \<le> scale_0_100 ps p"
    using lo d by (simp add: scale_0_100_def)
  have "(p - Min (set ps)) / (Max (set ps) - Min (set ps)) \<le> 1"
    using hi d by (simp add: field_simps)
  then have "(p - Min (set ps)) / (Max (set ps) - Min (set ps)) * 100 \<le> 1 * 100"
    by (intro mult_right_mono) simp_all
  then show "scale_0_100 ps p \<le> 100" by (simp only: scale_0_100_def mult_1)
qed

lemma scale_0_100_extremes:
  assumes "ps \<noteq> []" and "Max (set ps) \<noteq> Min (set ps)"
  shows "Min (set (map (scale_0_100 ps) ps)) = 0" and "Max (set (map (scale_0_100 ps) ps)) = 100"
proof -
  have lo_in: "Min (set ps) \<in> set ps" and hi_in: "Max (set ps) \<in> set ps"
    using assms(1) by (simp_all add: Min_in Max_in)
  have z: "scale_0_100 ps (Min (set ps)) = 0" by (simp add: scale_0_100_def)
  have h: "scale_0_100 ps (Max (set ps)) = 100" using assms(2) by (simp add: scale_0_100_def)
  show "Min (set (map (scale_0_100 ps) ps)) = 0"
  proof (rule Min_eqI)
    show "finite (set (map (scale_0_100 ps) ps))" by simp
    show "0 \<le> y" if "y \<in> set (map (scale_0_100 ps) ps)" for y
      using that scale_0_100_range(1) [OF _ assms(2)] by auto
    show "0 \<in> set (map (scale_0_100 ps) ps)"
      using lo_in z by (metis image_eqI set_map)
  qed
  show "Max (set (map (scale_0_100 ps) ps)) = 100"
  proof (rule Max_eqI)
    show "finite (set (map (scale_0_100 ps) ps))" by simp
    show "y \<le> 100" if "y \<in> set (map (scale_0_100 ps) ps)" for y
      using that scale_0_100_range(2) [OF _ assms(2)] by auto
    show "100 \<in> set (map (scale_0_100 ps) ps)"
      using hi_in h by (metis image_eqI set_map)
  qed
qed

lemma nonconstant_iff:
  "(\<exists>p\<in>set ps. \<exists>q\<in>set ps. p \<noteq> q) \<longleftrightarrow> ps \<noteq> [] \<and> Max (set ps) \<noteq> Min (set (ps :: real list))"
proof
  assume "\<exists>p\<in>set ps. \<exists>q\<in>set ps. p \<noteq> q"
  then obtain p q where p: "p \<in> set ps" and q: "q \<in> set ps" and "p \<noteq> q" by blast
  have "Min (set ps) \<le> p" "p \<le> Max (set ps)" "Min (set ps) \<le> q" "q \<le> Max (set ps)"
    using p q by simp_all
  with \<open>p \<noteq> q\<close> have "Max (set ps) \<noteq> Min (set ps)" by linarith
  with p show "ps \<noteq> [] \<and> Max (set ps) \<noteq> Min (set ps)" by auto
next
  assume a: "ps \<noteq> [] \<and> Max (set ps) \<noteq> Min (set ps)"
  then have "Min (set ps) \<in> set ps" "Max (set ps) \<in> set ps" by (simp_all add: Min_in Max_in)
  with a show "\<exists>p\<in>set ps. \<exists>q\<in>set ps. p \<noteq> q" by metis
qed

lemma normalized_nonconstant:
  assumes "\<exists>p\<in>set ps. \<exists>q\<in>set ps. p \<noteq> q"
  shows "normalized ps = map (\<lambda>p. Num (scale_0_100 ps p)) ps"
proof -
  from assms have a: "ps \<noteq> []" "Max (set ps) \<noteq> Min (set ps)"
    by (simp_all add: nonconstant_iff)
  then obtain p0 rest where ps: "ps = p0 # rest" by (cases ps) auto
  have lo: "fold min rest p0 = Min (set ps)" and hi: "fold max rest p0 = Max (set ps)"
    unfolding ps by (rule Min.set_eq_fold [symmetric], rule Max.set_eq_fold [symmetric])
  have "normalized (p0 # rest) =
      map (\<lambda>p. if fold max rest p0 - fold min rest p0 = 0 then NaN
                else Num ((p - fold min rest p0) / (fold max rest p0 - fold min rest p0) * 100))
        (p0 # rest)"
    by (simp add: normalized_def Let_def)
  then show ?thesis
    unfolding ps [symmetric] lo hi using a(2) by (simp add: scale_0_100_def)
qed


lemma filter_err_Inr:
  assumes "\<And>x. x \<in> set xs \<Longrightarrow> f x = Inr (g x)"
  shows "filter_err f xs = Inr (filter g xs)"
  using assms by (induction xs) (simp_all add: bind_err_def)

lemma chartable_eq:
  "chartable d = Inr (1 < length (prices d) \<and> Min (set (prices d)) \<noteq> Max (set (prices d)))"
proof (cases "1 < length (prices d)")
  case True
  then have "prices d \<noteq> []" by auto
  with True show ?thesis by (simp add: chartable_def py_min_Min py_max_Max bind_err_def)
next
  case False
  then show ?thesis by (simp add: chartable_def)
qed

lemma scripts_eq: "scripts data_store = Inr (filter (charted data_store) (map fst ASSETS))"
  unfolding scripts_def
  by (rule filter_err_Inr) (simp add: charted_def chartable_eq split: option.splits)

lemma charted_nonconstant:
  assumes "charted data_store s"
  shows "\<exists>d. data_store s = Some d \<and> (\<exists>p\<in>set (prices d). \<exists>q\<in>set (prices d). p \<noteq> q)"
proof -
  from assms obtain d where d: "data_store s = Some d" "1 < length (prices d)"
      "Min (set (prices d)) \<noteq> Max (set (prices d))"
    by (auto simp: charted_def split: option.splits)
  then have "prices d \<noteq> []" by auto
  with d(3) have "\<exists>p\<in>set (prices d). \<exists>q\<in>set (prices d). p \<noteq> q"
    using nonconstant_iff [of "prices d"] by metis
  with d(1) show ?thesis by blast
qed


lemma chart_traces_eq:
  "chart_traces data_store =
     (if filter (charted data_store) (map fst ASSETS) = [] then Inl ValueError
      else Inr (map (\<lambda>s. (s, normalized (prices (the (data_store s)))))
                 (filter (charted data_store) (map fst ASSETS))))"
proof -
  have "map_err (\<lambda>symbol. case data_store symbol of
                            None \<Rightarrow> Inl KeyError
                          | Some data \<Rightarrow> Inr (symbol, normalized (prices data)))
          (filter (charted data_store) (map fst ASSETS))
        = Inr (map (\<lambda>s. (s, normalized (prices (the (data_store s)))))
            (filter (charted data_store) (map fst ASSETS)))"
    by (rule map_err_Inr) (auto simp: charted_def split: option.splits)
  then show ?thesis
    by (simp add: chart_traces_def scripts_eq bind_err_def make_subplots_def)
qed

lemma chart_traces_nothing:
  "(\<forall>s\<in>set (map fst ASSETS). \<not> charted data_store s) \<longleftrightarrow> chart_traces data_store = Inl ValueError"
proof -
  have "(\<forall>s\<in>set (map fst ASSETS). \<not> charted data_store s)
      \<longleftrightarrow> filter (charted data_store) (map fst ASSETS) = []"
    by (simp only: filter_empty_conv)
  then show ?thesis by (simp only: chart_traces_eq split: if_split) simp
qed

lemma chart_traces_normalized:
  assumes "chart_traces data_store = Inr traces"
  shows "\<forall>(s, ys)\<in>set traces. \<exists>d. data_store s = Some d
           \<and> (\<exists>p\<in>set (prices d). \<exists>q\<in>set (prices d). p \<noteq> q)
           \<and> ys = map (\<lambda>p. Num (scale_0_100 (prices d) p)) (prices d)"
proof -
  have n: "\<exists>d. data_store s = Some d
           \<and> (\<exists>p\<in>set (prices d). \<exists>q\<in>set (prices d). p \<noteq> q)
           \<and> normalized (prices (the (data_store s))) = map (\<lambda>p. Num (scale_0_100 (prices d) p)) (prices d)"
    if "charted data_store s" for s
  proof -
    from charted_nonconstant [OF that] obtain d where
      d: "data_store s = Some d" "\<exists>p\<in>set (prices d). \<exists>q\<in>set (prices d). p \<noteq> q"
      by blast
    from normalized_nonconstant [OF d(2)] d show ?thesis by simp
  qed
  from assms have "traces = map (\<lambda>s. (s, normalized (prices (the (data_store s)))))
                 (filter (charted data_store) (map fst ASSETS))"
    by (simp add: chart_traces_eq split: if_splits)
  then show ?thesis using n by auto
qed


lemma fold_min_Num:
  "fold (\<lambda>y m. if py_lt y m then y else m) (map Num xs) (Num x) = Num (fold min xs x)"
  by (induction xs arbitrary: x) (simp_all add: min_def not_less le_less)

lemma fold_max_Num:
  "fold (\<lambda>y m. if py_lt m y then y else m) (map Num xs) (Num x) = Num (fold max xs x)"
  by (induction xs arbitrary: x) (simp_all add: max_def not_less le_less)

lemma py_min_nan_Num: "rs \<noteq> [] \<Longrightarrow> py_min_nan (map Num rs) = Inr (Num (Min (set rs)))"
proof (cases rs)
  case Nil
  then show "rs \<noteq> [] \<Longrightarrow> ?thesis" by simp
next
  case (Cons x xs)
  have "fold min xs x = Min (set (x # xs))" by (rule Min.set_eq_fold [symmetric])
  then show ?thesis using Cons by (simp add: fold_min_Num del: set_simps)
qed

lemma py_max_nan_Num: "rs \<noteq> [] \<Longrightarrow> py_max_nan (map Num rs) = Inr (Num (Max (set rs)))"
proof (cases rs)
  case Nil
  then show "rs \<noteq> [] \<Longrightarrow> ?thesis" by simp
next
  case (Cons x xs)
  have "fold max xs x = Max (set (x # xs))" by (rule Max.set_eq_fold [symmetric])
  then show ?thesis using Cons by (simp add: fold_max_Num del: set_simps)
qed

lemma normalized_elem_old_Num:
  assumes "rs \<noteq> []"
  shows "normalized_elem_old (map Num rs) (Num p) =
     Inr (Num (if Max (set rs) \<noteq> Min (set rs) then scale_0_100 rs p else 50))"
  using assms
  by (simp add: normalized_elem_old_def py_min_nan_Num py_max_nan_Num bind_err_def
      scale_0_100_def)

lemma normalized_old_Num:
  "normalized_old (map Num rs) =
     Inr (map (\<lambda>p. Num (if Max (set rs) \<noteq> Min (set rs) then scale_0_100 rs p else 50)) rs)"
proof -
  have "map_err (normalized_elem_old (map Num rs)) (map Num rs)
      = Inr (map ((\<lambda>v. case v of Num p \<Rightarrow> Num (if Max (set rs) \<noteq> Min (set rs) then scale_0_100 rs p else 50) | NaN \<Rightarrow> NaN)) (map Num rs))"
  proof (rule map_err_Inr)
    fix x assume "x \<in> set (map Num rs)"
    then obtain p where p: "x = Num p" "p \<in> set rs" by auto
    then have "rs \<noteq> []" by auto
    from normalized_elem_old_Num [OF this, of p] p
    show "normalized_elem_old (map Num rs) x = Inr (case x of Num p \<Rightarrow> Num (if Max (set rs) \<noteq> Min (set rs) then scale_0_100 rs p else 50) | NaN \<Rightarrow> NaN)"
      by simp
  qed
  then show ?thesis by (simp add: normalized_old_def comp_def)
qed

lemma chart_normalization_numeric:
  "((\<exists>p\<in>set rs. \<exists>q\<in>set rs. p \<noteq> q) \<longrightarrow>
       normalized_old (map Num rs) = Inr (map (\<lambda>p. Num (scale_0_100 rs p)) rs)
       \<and> normalized rs = map (\<lambda>p. Num (scale_0_100 rs p)) rs
       \<and> Min (set (map (scale_0_100 rs) rs)) = 0
       \<and> Max (set (map (scale_0_100 rs) rs)) = 100)
   \<and> ((\<forall>p\<in>set rs. \<forall>q\<in>set rs. p = q) \<longrightarrow> normalized_old (map Num rs) = Inr (map (\<lambda>p. Num 50) rs))"
proof -
  have 1: "normalized_old (map Num rs) = Inr (map (\<lambda>p. Num (scale_0_100 rs p)) rs)
       \<and> normalized rs = map (\<lambda>p. Num (scale_0_100 rs p)) rs
       \<and> Min (set (map (scale_0_100 rs) rs)) = 0
       \<and> Max (set (map (scale_0_100 rs) rs)) = 100"
    if a: "\<exists>p\<in>set rs. \<exists>q\<in>set rs. p \<noteq> q"
  proof -
    from a have b: "rs \<noteq> []" "Max (set rs) \<noteq> Min (set rs)"
      by (simp_all add: nonconstant_iff)
    show ?thesis
      using b scale_0_100_extremes [OF b] normalized_nonconstant [OF a]
      by (simp add: normalized_old_Num)
  qed
  have 2: "normalized_old (map Num rs) = Inr (map (\<lambda>p. Num 50) rs)"
    if a: "\<forall>p\<in>set rs. \<forall>q\<in>set rs. p = q"
  proof (cases "rs = []")
    case True
    then show ?thesis by (simp add: normalized_old_def)
  next
    case False
    with a have "\<not> (rs \<noteq> [] \<and> Max (set rs) \<noteq> Min (set rs))"
      using nonconstant_iff [of rs] by blast
    with False have "Max (set rs) = Min (set rs)" by simp
    then show ?thesis by (simp add: normalized_old_Num)
  qed
  from 1 2 show ?thesis by blast
qed

lemma fetch_asset_data_old_nan:
  "fetch_asset_data_old yf_nan_example ''GC=F'' = Some snapshot_nan"
  by (simp add: fetch_asset_data_old_def fetch_body_old_def yf_nan_example_def
      py_last_def py_first_def bind_err_def calculate_slope_nan_missing
      get_trend_info_old_def snapshot_nan_def)

section \<open>Properties of the data store, and the chart of a stored series\<close>









lemma fold_store_old:
  "fold (\<lambda>symbol store.
             case fetch_asset_data_old yf symbol of
               None \<Rightarrow> store
             | Some data \<Rightarrow> store(symbol \<mapsto> data)) xs m k
       = (if k \<in> set xs
          then (case fetch_asset_data_old yf k of None \<Rightarrow> m k | Some d \<Rightarrow> Some d)
          else m k)"
  by (induction xs arbitrary: m) (auto split: option.splits)

lemma refresh_old_entry:
  "refresh_old yf data_store k =
     (if k \<in> fst ` set ASSETS_old
      then (case fetch_asset_data_old yf k of None \<Rightarrow> data_store k | Some d \<Rightarrow> Some d)
      else data_store k)"
  by (simp add: refresh_old_def fold_store_old)



lemma refresh_old_nan_example:
  "refresh_old yf_nan_example Map.empty = [''GC=F'' \<mapsto> snapshot_nan]"
proof
  fix k
  have other: "fetch_asset_data_old yf_nan_example k = None" if "k \<noteq> ''GC=F''"
    using that by (simp add: fetch_asset_data_old_def fetch_body_old_def yf_nan_example_def)
  show "refresh_old yf_nan_example Map.empty k = [''GC=F'' \<mapsto> snapshot_nan] k"
  proof (cases "k = ''GC=F''")
    case True
    then show ?thesis
      by (simp add: refresh_old_entry fetch_asset_data_old_nan ASSETS_old_def)
  next
    case False
    then show ?thesis by (simp add: refresh_old_entry other)
  qed
qed

text \<open>
  C5: a series that is not constant is normalised for the chart by
  \<open>(p - min) / (max - min) * 100\<close>, so that the least normalised value is 0 and the
  greatest is 100, and a constant series is normalised to 50 in every element. Both
  variants do that for every series of numbers that they chart
  (\<open>chart_normalization_numeric\<close>, \<open>chart_traces_normalized\<close>). The old variant also
  charts series with missing closes, which its fetch does not drop: for two missing
  closes the fetch stores a snapshot, and the trace of its chart is NaN, NaN, neither 0
  and 100 nor 50.
\<close>

theorem chart_old_missing_closes:
  "fetch_asset_data_old yf_nan_example ''GC=F'' = Some snapshot_nan
   \<and> prices_old snapshot_nan = [NaN, NaN]
   \<and> refresh_old yf_nan_example Map.empty ''GC=F'' = Some snapshot_nan
   \<and> normalized_old [NaN, NaN] = Inr [NaN, NaN]
   \<and> chart_traces_old (refresh_old yf_nan_example Map.empty) = Inr [(''GC=F'', [NaN, NaN])]"
proof -
  have n: "normalized_old [NaN, NaN] = Inr [NaN, NaN]"
    by (simp add: normalized_old_def normalized_elem_old_def bind_err_def)
  have c: "chart_traces_old [''GC=F'' \<mapsto> snapshot_nan] = Inr [(''GC=F'', [NaN, NaN])]"
    by (simp add: chart_traces_old_def ASSETS_old_def bind_err_def n snapshot_nan_def)
  show ?thesis
    using n c fetch_asset_data_old_nan
    by (simp add: refresh_old_nan_example snapshot_nan_def)
qed








end
